theory Spec2Isabelle
  imports Main "HOL-Library.Word"
begin

unbundle bit_operations_syntax

section \<open>The page-cache advisory shim (\<open>fadv_shim_drop.c\<close>)\<close>

text \<open>
  The shim is a preloaded shared object that replaces eight libc entry points by wrappers.
  Each wrapper runs the one-time initialiser, delegates to the original function (or to a
  raw system call when the original could not be looked up) and issues
  \<open>posix_fadvise\<close> hints on small regular files.

  The wrappers only talk to the outside through library and system calls. The model makes
  that outside explicit:
  \<^item> \<open>'k sys\<close> is what the calling thread can observe of the system: its \<open>errno\<close> and the
    state \<open>kern\<close> of kernel and libc, of an arbitrary type \<open>'k\<close>;
  \<^item> \<open>'k os\<close> describes how the platform answers the calls the shim makes;
  \<^item> \<open>'k shim\<close> holds the static variables of the C file, the system state and the
    \<open>trace\<close> of I/O calls the shim has issued, in order.
\<close>

subsection \<open>Data\<close>

text \<open>\<open>struct stat\<close>, reduced to the two fields the shim reads. \<open>off_t\<close> is the 64-bit
  signed type of LP64 Linux; its values are compared, never computed with, so it is an \<open>int\<close>.\<close>

record stat =
  st_mode :: "32 word"
  st_size :: int

text \<open>\<open>S_ISREG(m)\<close> is \<open>((m & S_IFMT) == S_IFREG)\<close>, with \<open>S_IFMT = 0170000\<close> and
  \<open>S_IFREG = 0100000\<close>.\<close>

definition S_ISREG :: "32 word \<Rightarrow> bool" where
  "S_ISREG m = (m AND 61440 = 32768)"

datatype advice = POSIX_FADV_DONTNEED | POSIX_FADV_NOREUSE

datatype sysno = SYS_open | SYS_read | SYS_pread64 | SYS_readv | SYS_close

text \<open>The argument lists of the intercepted functions. Descriptors, return values and
  offsets are C integers that are only compared; buffers, \<open>iovec\<close> arrays and \<open>FILE *\<close>
  are addresses (\<open>NULL\<close> is 0); \<open>flags\<close> and \<open>mode_t\<close> are 32-bit words.\<close>

datatype args =
    A_open string "32 word" "32 word"
  | A_read int nat nat
  | A_pread int nat nat int
  | A_readv int nat int
  | A_close int
  | A_fopen string string
  | A_fclose int

text \<open>The calls the shim issues: \<open>Orig name a\<close> is a call through the pointer
  \<open>real_name\<close>, \<open>Syscall n a\<close> is \<open>syscall(n, a)\<close>.\<close>

datatype event =
    Fstat int
  | Fadvise int advice
  | Fileno int
  | Fdopen int string
  | Orig string args
  | Syscall sysno args

record 'k sys =
  errno :: int
  kern :: 'k

type_synonym 'k prim = "args \<Rightarrow> 'k sys \<Rightarrow> int \<times> 'k sys"

text \<open>
  The platform. \<open>dlsym_next name\<close> is what \<open>dlsym(RTLD_NEXT, name)\<close> returns (\<open>None\<close> is
  \<open>NULL\<close>). \<open>os_fstat fd k\<close> is the outcome of \<open>fstat(fd, &st)\<close> in kernel state \<open>k\<close>:
  \<open>Inl e\<close> when it fails with error number \<open>e\<close>, \<open>Inr st\<close> when it fills in \<open>st\<close>.
  \<open>os_fadvise\<close> is the effect of \<open>posix_fadvise(fd, 0, 0, advice)\<close> on the kernel state;
  it reports failure through its return value, which the shim discards, and leaves
  \<open>errno\<close> alone. \<open>os_fileno f k\<close> is the descriptor of stream \<open>f\<close>, \<open>None\<close> when the
  stream has none.
\<close>

record 'k os =
  getenv :: "string \<Rightarrow> string option"
  dlsym_next :: "string \<Rightarrow> 'k prim option"
  sys_call :: "sysno \<Rightarrow> 'k prim"
  os_fstat :: "int \<Rightarrow> 'k \<Rightarrow> int + stat"
  os_fadvise :: "int \<Rightarrow> advice \<Rightarrow> 'k \<Rightarrow> 'k"
  os_fileno :: "int \<Rightarrow> 'k \<Rightarrow> int option"
  os_fdopen :: "int \<Rightarrow> string \<Rightarrow> 'k sys \<Rightarrow> int \<times> 'k sys"

text \<open>The static variables of the file (lines 17--32), then the system and the trace.
  \<open>do_open_hint\<close> and \<open>do_close_drop\<close> are C ints that only hold 0 or 1 and are only
  tested for truth. \<open>init_once\<close> is \<open>True\<close> once \<open>pthread_once\<close> has run the initialiser.\<close>

record 'k shim =
  small_file_cutoff :: int
  do_open_hint :: bool
  do_close_drop :: bool
  real_open :: "'k prim option"
  real_open64 :: "'k prim option"
  real_fopen :: "'k prim option"
  real_read :: "'k prim option"
  real_pread :: "'k prim option"
  real_readv :: "'k prim option"
  real_close :: "'k prim option"
  real_fclose :: "'k prim option"
  init_once :: bool
  sys :: "'k sys"
  trace :: "event list"

text \<open>The state of a process in which no entry point has run yet: the static
  initialisers of lines 17--32.\<close>

definition initial :: "'k sys \<Rightarrow> 'k shim" where
  "initial y =
     \<lparr> small_file_cutoff = 1048576, do_open_hint = True, do_close_drop = True,
       real_open = None, real_open64 = None, real_fopen = None, real_read = None,
       real_pread = None, real_readv = None, real_close = None, real_fclose = None,
       init_once = False, sys = y, trace = [] \<rparr>"

text \<open>Constants of \<open><fcntl.h>\<close>, \<open><errno.h>\<close> and \<open><limits.h>\<close> on Linux.\<close>

definition O_RDONLY :: "32 word" where "O_RDONLY = 0"
definition O_CREAT :: "32 word" where "O_CREAT = 64"
definition EBADF :: int where "EBADF = 9"
definition ERANGE :: int where "ERANGE = 34"
definition LLONG_MAX :: int where "LLONG_MAX = 9223372036854775807"
definition LLONG_MIN :: int where "LLONG_MIN = - 9223372036854775808"
definition NULL :: int where "NULL = 0"

subsection \<open>Library calls\<close>

text \<open>\<open>strtoll(str, NULL, 10)\<close> as the C standard describes it: white space is skipped, an
  optional sign is read, then the longest run of decimal digits; no digits give 0 and a
  value out of range is clamped.\<close>

definition isspace :: "char \<Rightarrow> bool" where
  "isspace c = (of_char c = (32::nat) \<or> (9 \<le> (of_char c :: nat) \<and> (of_char c :: nat) \<le> 13))"

definition isdigit :: "char \<Rightarrow> bool" where
  "isdigit c = (48 \<le> (of_char c :: nat) \<and> (of_char c :: nat) \<le> 57)"

fun digits_val :: "int \<Rightarrow> string \<Rightarrow> int" where
  "digits_val acc [] = acc"
| "digits_val acc (c # cs) =
     (if isdigit c then digits_val (10 * acc + (of_char c - 48)) cs else acc)"

definition strtoll :: "string \<Rightarrow> int" where
  "strtoll str =
     (let t = dropWhile isspace str;
          neg = (t \<noteq> [] \<and> hd t = CHR ''-'');
          u = (if t \<noteq> [] \<and> (hd t = CHR ''-'' \<or> hd t = CHR ''+'') then tl t else t);
          v = digits_val 0 u;
          sv = (if neg then - v else v)
      in if sv > LLONG_MAX then LLONG_MAX else if sv < LLONG_MIN then LLONG_MIN else sv)"

text \<open>\<open>strtoll str\<close> above is the value the call returns. The call also stores \<open>ERANGE\<close> in
  \<open>errno\<close> when the value read is out of range, and leaves \<open>errno\<close> alone otherwise:
  \<open>strtoll_errno str e\<close> is \<open>errno\<close> after the call when it was \<open>e\<close> before.\<close>

definition strtoll_errno :: "string \<Rightarrow> int \<Rightarrow> int" where
  "strtoll_errno str e =
     (let t = dropWhile isspace str;
          neg = (t \<noteq> [] \<and> hd t = CHR ''-'');
          u = (if t \<noteq> [] \<and> (hd t = CHR ''-'' \<or> hd t = CHR ''+'') then tl t else t);
          v = digits_val 0 u;
          sv = (if neg then - v else v)
      in if sv > LLONG_MAX \<or> sv < LLONG_MIN then ERANGE else e)"

text \<open>\<open>fstat\<close> sets \<open>errno\<close> when it fails and changes nothing else.\<close>

definition fstat :: "'k os \<Rightarrow> int \<Rightarrow> 'k shim \<Rightarrow> stat option \<times> 'k shim" where
  "fstat os fd s =
     (case os_fstat os fd (kern (sys s)) of
        Inl e \<Rightarrow> (None, s\<lparr>sys := (sys s)\<lparr>errno := e\<rparr>, trace := trace s @ [Fstat fd]\<rparr>)
      | Inr st \<Rightarrow> (Some st, s\<lparr>trace := trace s @ [Fstat fd]\<rparr>))"

definition posix_fadvise :: "'k os \<Rightarrow> int \<Rightarrow> advice \<Rightarrow> 'k shim \<Rightarrow> 'k shim" where
  "posix_fadvise os fd adv s =
     s\<lparr>sys := (sys s)\<lparr>kern := os_fadvise os fd adv (kern (sys s))\<rparr>,
       trace := trace s @ [Fadvise fd adv]\<rparr>"

text \<open>\<open>fileno\<close> returns -1 and sets \<open>errno\<close> to \<open>EBADF\<close> when the stream has no descriptor.\<close>

definition fileno :: "'k os \<Rightarrow> int \<Rightarrow> 'k shim \<Rightarrow> int \<times> 'k shim" where
  "fileno os stream s =
     (case os_fileno os stream (kern (sys s)) of
        None \<Rightarrow> (- 1, s\<lparr>sys := (sys s)\<lparr>errno := EBADF\<rparr>, trace := trace s @ [Fileno stream]\<rparr>)
      | Some fd \<Rightarrow> (fd, s\<lparr>trace := trace s @ [Fileno stream]\<rparr>))"

definition fdopen :: "'k os \<Rightarrow> int \<Rightarrow> string \<Rightarrow> 'k shim \<Rightarrow> int \<times> 'k shim" where
  "fdopen os fd m s =
     (let (f, y) = os_fdopen os fd m (sys s)
      in (f, s\<lparr>sys := y, trace := trace s @ [Fdopen fd m]\<rparr>))"

text \<open>A call through a resolved pointer, and \<open>syscall\<close>.\<close>

definition call_real :: "string \<Rightarrow> 'k prim \<Rightarrow> args \<Rightarrow> 'k shim \<Rightarrow> int \<times> 'k shim" where
  "call_real name f a s =
     (let (r, y) = f a (sys s) in (r, s\<lparr>sys := y, trace := trace s @ [Orig name a]\<rparr>))"

definition syscall :: "'k os \<Rightarrow> sysno \<Rightarrow> args \<Rightarrow> 'k shim \<Rightarrow> int \<times> 'k shim" where
  "syscall os n a s =
     (let (r, y) = sys_call os n a (sys s)
      in (r, s\<lparr>sys := y, trace := trace s @ [Syscall n a]\<rparr>))"

subsection \<open>Initialisation (lines 34--68)\<close>

text \<open>The cast of the \<open>long long\<close> that \<open>strtoll\<close> returns to \<open>off_t\<close> changes nothing on LP64.
  \<open>strcmp(a, b) == 0\<close> is equality of the two strings. The call of \<open>strtoll\<close> is the one
  place where the initialiser can change \<open>errno\<close>; \<open>getenv\<close>, \<open>strcmp\<close> and a \<open>dlsym\<close> lookup
  leave it alone.\<close>

definition load_config_from_env :: "'k os \<Rightarrow> 'k shim \<Rightarrow> 'k shim" where
  "load_config_from_env os s =
     (let s1 = (case getenv os ''FADV_SMALL_CUTOFF'' of
                  None \<Rightarrow> s
                | Some env \<Rightarrow>
                    (let val = strtoll env;
                         s' = s\<lparr>sys := (sys s)\<lparr>errno := strtoll_errno env (errno (sys s))\<rparr>\<rparr>
                     in if val > 0 then s'\<lparr>small_file_cutoff := val\<rparr> else s'));
          s2 = (case getenv os ''FADV_OPEN_HINT'' of
                  None \<Rightarrow> s1
                | Some env \<Rightarrow>
                    if env = ''none'' then s1\<lparr>do_open_hint := False\<rparr>
                    else if env = ''noreuse'' then s1\<lparr>do_open_hint := True\<rparr>
                    else s1)
      in (case getenv os ''FADV_CLOSE_DROP'' of
            None \<Rightarrow> s2
          | Some env \<Rightarrow>
              if env = ''0'' then s2\<lparr>do_close_drop := False\<rparr>
              else s2\<lparr>do_close_drop := True\<rparr>))"

definition init_real_fns :: "'k os \<Rightarrow> 'k shim \<Rightarrow> 'k shim" where
  "init_real_fns os s =
     load_config_from_env os
       (s\<lparr>real_open := dlsym_next os ''open'',
          real_open64 := dlsym_next os ''open64'',
          real_fopen := dlsym_next os ''fopen'',
          real_read := dlsym_next os ''read'',
          real_pread := dlsym_next os ''pread'',
          real_readv := dlsym_next os ''readv'',
          real_close := dlsym_next os ''close'',
          real_fclose := dlsym_next os ''fclose''\<rparr>)"

text \<open>\<open>pthread_once(&init_once, init_real_fns)\<close> as one thread sees it.\<close>

definition pthread_once :: "'k os \<Rightarrow> 'k shim \<Rightarrow> 'k shim" where
  "pthread_once os s = (if init_once s then s else (init_real_fns os s)\<lparr>init_once := True\<rparr>)"

subsection \<open>The advisory engine (lines 70--93)\<close>

definition try_drop_fd :: "'k os \<Rightarrow> int \<Rightarrow> 'k shim \<Rightarrow> 'k shim" where
  "try_drop_fd os fd s =
     (if fd < 0 then s
      else case fstat os fd s of
             (None, s1) \<Rightarrow> s1
           | (Some st, s1) \<Rightarrow>
               if \<not> S_ISREG (st_mode st) then s1
               else if st_size st > small_file_cutoff s1 then s1
               else posix_fadvise os fd POSIX_FADV_DONTNEED s1)"

definition try_open_hint :: "'k os \<Rightarrow> int \<Rightarrow> 'k shim \<Rightarrow> 'k shim" where
  "try_open_hint os fd s =
     (if \<not> do_open_hint s then s
      else if fd < 0 then s
      else case fstat os fd s of
             (None, s1) \<Rightarrow> s1
           | (Some st, s1) \<Rightarrow>
               if \<not> S_ISREG (st_mode st) then s1
               else if st_size st > small_file_cutoff s1 then s1
               else posix_fadvise os fd POSIX_FADV_NOREUSE s1)"

subsection \<open>The interposed functions (lines 97--197)\<close>

text \<open>\<open>ap\<close> is the word in the first variadic slot; the wrapper reads it only when
  \<open>O_CREAT\<close> is set.\<close>

definition "open" :: "'k os \<Rightarrow> string \<Rightarrow> 32 word \<Rightarrow> 32 word \<Rightarrow> 'k shim \<Rightarrow> int \<times> 'k shim" where
  "open os pathname flags ap s =
     (let s0 = pthread_once os s;
          mode = (if flags AND O_CREAT \<noteq> 0 then ap else 0);
          (fd, s1) = (case real_open s0 of
                        Some f \<Rightarrow> call_real ''open'' f (A_open pathname flags mode) s0
                      | None \<Rightarrow> syscall os SYS_open (A_open pathname flags mode) s0)
      in (fd, try_open_hint os fd s1))"

definition open64 :: "'k os \<Rightarrow> string \<Rightarrow> 32 word \<Rightarrow> 32 word \<Rightarrow> 'k shim \<Rightarrow> int \<times> 'k shim" where
  "open64 os pathname flags ap s =
     (let s0 = pthread_once os s;
          mode = (if flags AND O_CREAT \<noteq> 0 then ap else 0);
          (fd, s1) = (case real_open64 s0 of
                        Some f \<Rightarrow> call_real ''open64'' f (A_open pathname flags mode) s0
                      | None \<Rightarrow> syscall os SYS_open (A_open pathname flags mode) s0)
      in (fd, try_open_hint os fd s1))"

text \<open>The fallback calls \<open>open\<close> of this file with two arguments: \<open>O_RDONLY\<close> has no
  \<open>O_CREAT\<close> bit, so the variadic slot is not read.\<close>

definition fopen :: "'k os \<Rightarrow> string \<Rightarrow> string \<Rightarrow> 'k shim \<Rightarrow> int \<times> 'k shim" where
  "fopen os pathname mode s =
     (let s0 = pthread_once os s;
          (f, s1) = (case real_fopen s0 of
                       Some g \<Rightarrow> call_real ''fopen'' g (A_fopen pathname mode) s0
                     | None \<Rightarrow>
                         (let (fd, sa) = open os pathname O_RDONLY 0 s0
                          in fdopen os fd ''r'' sa))
      in if f \<noteq> NULL \<and> do_open_hint s1
         then (let (fd, s2) = fileno os f s1 in (f, try_open_hint os fd s2))
         else (f, s1))"

definition read :: "'k os \<Rightarrow> int \<Rightarrow> nat \<Rightarrow> nat \<Rightarrow> 'k shim \<Rightarrow> int \<times> 'k shim" where
  "read os fd buf count s =
     (let s0 = pthread_once os s;
          (r, s1) = (case real_read s0 of
                       Some f \<Rightarrow> call_real ''read'' f (A_read fd buf count) s0
                     | None \<Rightarrow> syscall os SYS_read (A_read fd buf count) s0)
      in (r, if r = 0 then try_drop_fd os fd s1 else s1))"

definition pread :: "'k os \<Rightarrow> int \<Rightarrow> nat \<Rightarrow> nat \<Rightarrow> int \<Rightarrow> 'k shim \<Rightarrow> int \<times> 'k shim" where
  "pread os fd buf count offset s =
     (let s0 = pthread_once os s;
          (r, s1) = (case real_pread s0 of
                       Some f \<Rightarrow> call_real ''pread'' f (A_pread fd buf count offset) s0
                     | None \<Rightarrow> syscall os SYS_pread64 (A_pread fd buf count offset) s0)
      in (r, if r = 0 then try_drop_fd os fd s1 else s1))"

definition readv :: "'k os \<Rightarrow> int \<Rightarrow> nat \<Rightarrow> int \<Rightarrow> 'k shim \<Rightarrow> int \<times> 'k shim" where
  "readv os fd iov iovcnt s =
     (let s0 = pthread_once os s;
          (r, s1) = (case real_readv s0 of
                       Some f \<Rightarrow> call_real ''readv'' f (A_readv fd iov iovcnt) s0
                     | None \<Rightarrow> syscall os SYS_readv (A_readv fd iov iovcnt) s0)
      in (r, if r = 0 then try_drop_fd os fd s1 else s1))"

definition close :: "'k os \<Rightarrow> int \<Rightarrow> 'k shim \<Rightarrow> int \<times> 'k shim" where
  "close os fd s =
     (let s0 = pthread_once os s;
          s1 = (if do_close_drop s0 then try_drop_fd os fd s0 else s0)
      in case real_close s1 of
           Some f \<Rightarrow> call_real ''close'' f (A_close fd) s1
         | None \<Rightarrow> syscall os SYS_close (A_close fd) s1)"

definition fclose :: "'k os \<Rightarrow> int \<Rightarrow> 'k shim \<Rightarrow> int \<times> 'k shim" where
  "fclose os stream s =
     (let s0 = pthread_once os s;
          s1 = (if stream \<noteq> NULL
                then (if do_close_drop s0
                      then (let (fd, sa) = fileno os stream s0
                            in if fd \<ge> 0 then try_drop_fd os fd sa else sa)
                      else s0)
                else s0)
      in case real_fclose s1 of
           Some f \<Rightarrow> call_real ''fclose'' f (A_fclose stream) s1
         | None \<Rightarrow> (0, s1))"

subsection \<open>Vocabulary of the properties\<close>

text \<open>The calls a wrapper added to the trace.\<close>

definition new_events :: "'k shim \<Rightarrow> 'k shim \<Rightarrow> event list" where
  "new_events s s' = drop (length (trace s)) (trace s')"

text \<open>The advisories among a list of calls, in order, and the delegations among them.\<close>

fun advisories :: "event list \<Rightarrow> (int \<times> advice) list" where
  "advisories [] = []"
| "advisories (Fadvise fd a # es) = (fd, a) # advisories es"
| "advisories (e # es) = advisories es"

fun is_delegation :: "event \<Rightarrow> bool" where
  "is_delegation (Orig n a) = True"
| "is_delegation (Syscall n a) = True"
| "is_delegation e = False"

definition delegations :: "event list \<Rightarrow> event list" where
  "delegations es = filter is_delegation es"

text \<open>A descriptor passes the guards of the engine in kernel state \<open>k\<close>: it is not
  negative, \<open>fstat\<close> succeeds on it, it is a regular file and its size is at most the
  cutoff.\<close>

definition eligible :: "'k os \<Rightarrow> int \<Rightarrow> int \<Rightarrow> 'k \<Rightarrow> bool" where
  "eligible os cutoff fd k =
     (fd \<ge> 0 \<and> (case os_fstat os fd k of
                   Inl e \<Rightarrow> False
                 | Inr st \<Rightarrow> S_ISREG (st_mode st) \<and> st_size st \<le> cutoff))"

text \<open>What one run of the engine on \<open>fd\<close> adds to the trace, and the \<open>errno\<close> it leaves:
  that of a failed \<open>fstat\<close>, else the one it found.\<close>

definition engine_events :: "'k os \<Rightarrow> int \<Rightarrow> advice \<Rightarrow> int \<Rightarrow> 'k \<Rightarrow> event list" where
  "engine_events os cutoff adv fd k =
     (if fd < 0 then []
      else Fstat fd # (if eligible os cutoff fd k then [Fadvise fd adv] else []))"


text \<open>The delegated call of a descriptor-level wrapper: the original when its pointer is
  set, the raw system call otherwise. \<open>delegated\<close> is its outcome on a system state,
  \<open>delegate_event\<close> the entry it leaves in the trace, \<open>delegate\<close> both on a shim state.\<close>

definition delegated :: "'k os \<Rightarrow> 'k prim option \<Rightarrow> sysno \<Rightarrow> args \<Rightarrow> 'k sys \<Rightarrow> int \<times> 'k sys" where
  "delegated os fp n a y = (case fp of Some f \<Rightarrow> f a y | None \<Rightarrow> sys_call os n a y)"

definition delegate_event :: "'k prim option \<Rightarrow> string \<Rightarrow> sysno \<Rightarrow> args \<Rightarrow> event" where
  "delegate_event fp name n a = (case fp of Some f \<Rightarrow> Orig name a | None \<Rightarrow> Syscall n a)"

definition delegate ::
  "'k os \<Rightarrow> 'k prim option \<Rightarrow> string \<Rightarrow> sysno \<Rightarrow> args \<Rightarrow> 'k shim \<Rightarrow> int \<times> 'k shim" where
  "delegate os fp name n a s =
     (fst (delegated os fp n a (sys s)),
      s\<lparr>sys := snd (delegated os fp n a (sys s)),
        trace := trace s @ [delegate_event fp name n a]\<rparr>)"

text \<open>The value of the cutoff variable has no digits where \<open>strtoll\<close> looks for them.\<close>

definition no_digits :: "string \<Rightarrow> bool" where
  "no_digits str =
     (let t = dropWhile isspace str;
          u = (if t \<noteq> [] \<and> (hd t = CHR ''-'' \<or> hd t = CHR ''+'') then tl t else t)
      in u = [] \<or> \<not> isdigit (hd u))"

text \<open>The arguments of the delegations among a list of calls, and the calls with the
  name of the pointer erased.\<close>

fun passed_args :: "event list \<Rightarrow> args list" where
  "passed_args [] = []"
| "passed_args (Orig n a # es) = a # passed_args es"
| "passed_args (Syscall n a # es) = a # passed_args es"
| "passed_args (e # es) = passed_args es"

fun unnamed :: "event \<Rightarrow> event" where
  "unnamed (Orig n a) = Orig [] a"
| "unnamed e = e"

subsection \<open>A small platform\<close>

text \<open>
  The example of the design document: the cutoff is 2048 bytes, descriptor 3 is a regular
  file of 500 bytes (\<open>small.txt\<close>), descriptor 4 one of 5000 bytes (\<open>big.bin\<close>). Reads are at
  end of file, stream 1000 sits on descriptor 3. \<open>ex_os resolved env\<close> finds every original
  when \<open>resolved\<close> holds and none otherwise; originals and raw system calls behave alike.
\<close>

definition ex_stat :: "int \<Rightarrow> unit \<Rightarrow> int + stat" where
  "ex_stat fd k =
     (if fd = 3 then Inr \<lparr>st_mode = 33188, st_size = 500\<rparr>
      else if fd = 4 then Inr \<lparr>st_mode = 33188, st_size = 5000\<rparr>
      else Inl EBADF)"

definition ex_libc :: "unit prim" where
  "ex_libc a y =
     (case a of
        A_open p fl m \<Rightarrow>
          if p = ''small.txt'' then (3, y)
          else if p = ''big.bin'' then (4, y)
          else (- 1, y\<lparr>errno := 2\<rparr>)
      | A_read fd b c \<Rightarrow> (0, y)
      | A_pread fd b c off \<Rightarrow> (0, y)
      | A_readv fd iov n \<Rightarrow> (0, y)
      | A_close fd \<Rightarrow> (0, y)
      | A_fopen p m \<Rightarrow> (1000, y)
      | A_fclose f \<Rightarrow> (0, y))"

definition ex_os :: "bool \<Rightarrow> (string \<Rightarrow> string option) \<Rightarrow> unit os" where
  "ex_os resolved env =
     \<lparr> getenv = env,
       dlsym_next = (\<lambda>name. if resolved then Some ex_libc else None),
       sys_call = (\<lambda>n. ex_libc),
       os_fstat = ex_stat,
       os_fadvise = (\<lambda>fd adv k. k),
       os_fileno = (\<lambda>f k. if f = 1000 then Some 3 else None),
       os_fdopen = (\<lambda>fd m y. if fd < 0 then (NULL, y\<lparr>errno := EBADF\<rparr>) else (1000, y)) \<rparr>"

definition ex_env :: "string \<Rightarrow> string option" where
  "ex_env = [''FADV_SMALL_CUTOFF'' \<mapsto> ''2048'']"

definition ex_sys :: "unit sys" where
  "ex_sys = \<lparr>errno = 0, kern = ()\<rparr>"

text \<open>The same platform on a file system whose \<open>fstat\<close> fails with \<open>EIO\<close> (5).\<close>

definition eio_os :: "unit os" where
  "eio_os = (ex_os True ex_env)\<lparr>os_fstat := (\<lambda>fd k. Inl 5)\<rparr>"

section \<open>Properties\<close>

subsection \<open>Lists of calls\<close>

lemma new_events_append: "trace s' = trace s @ es \<Longrightarrow> new_events s s' = es"
  by (simp add: new_events_def)

lemma advisories_append: "advisories (xs @ ys) = advisories xs @ advisories ys"
  by (induction xs rule: advisories.induct) simp_all

lemma passed_args_append: "passed_args (xs @ ys) = passed_args xs @ passed_args ys"
  by (induction xs rule: passed_args.induct) simp_all

lemma delegations_append: "delegations (xs @ ys) = delegations xs @ delegations ys"
  by (simp add: delegations_def)

lemma advisories_engine_events:
  "advisories (engine_events os c adv fd k) = (if eligible os c fd k then [(fd, adv)] else [])"
  by (simp add: engine_events_def eligible_def)

lemma delegations_engine_events: "delegations (engine_events os c adv fd k) = []"
  by (simp add: engine_events_def delegations_def)

lemma passed_args_engine_events: "passed_args (engine_events os c adv fd k) = []"
  by (simp add: engine_events_def)

lemma advisories_delegate_event: "advisories (delegate_event fp name n a # es) = advisories es"
  by (simp add: delegate_event_def split: option.splits)

lemma delegations_delegate_event:
  "delegations (delegate_event fp name n a # es) = delegate_event fp name n a # delegations es"
  by (simp add: delegate_event_def delegations_def split: option.splits)

lemma passed_args_delegate_event:
  "passed_args (delegate_event fp name n a # es) = a # passed_args es"
  by (simp add: delegate_event_def split: option.splits)

subsection \<open>The initialiser\<close>

text \<open>The initialiser leaves the kernel state alone; of \<open>errno\<close> it changes what \<open>strtoll\<close>
  changes, the first time it runs.\<close>

lemma pthread_once_kern: "kern (sys (pthread_once os s)) = kern (sys s)"
  by (simp add: pthread_once_def init_real_fns_def load_config_from_env_def Let_def
      split: option.splits)


lemma pthread_once_trace: "trace (pthread_once os s) = trace s"
  by (simp add: pthread_once_def init_real_fns_def load_config_from_env_def Let_def
      split: option.splits)

lemma pthread_once_done: "init_once (pthread_once os s)"
  by (simp add: pthread_once_def)

lemma pthread_once_idem: "pthread_once os (pthread_once os s) = pthread_once os s"
  by (simp add: pthread_once_def)

lemma pthread_once_close_drop_upd:
  "real_read (pthread_once os (s\<lparr>do_close_drop := b\<rparr>)) = real_read (pthread_once os s)"
  "real_pread (pthread_once os (s\<lparr>do_close_drop := b\<rparr>)) = real_pread (pthread_once os s)"
  "real_readv (pthread_once os (s\<lparr>do_close_drop := b\<rparr>)) = real_readv (pthread_once os s)"
  "small_file_cutoff (pthread_once os (s\<lparr>do_close_drop := b\<rparr>)) =
     small_file_cutoff (pthread_once os s)"
  "sys (pthread_once os (s\<lparr>do_close_drop := b\<rparr>)) = sys (pthread_once os s)"
  by (simp_all add: pthread_once_def init_real_fns_def load_config_from_env_def Let_def
      split: option.splits)

subsection \<open>The engine\<close>

lemma try_drop_fd_trace:
  "trace (try_drop_fd os fd s) =
     trace s @ engine_events os (small_file_cutoff s) POSIX_FADV_DONTNEED fd (kern (sys s))"
  by (simp add: try_drop_fd_def fstat_def posix_fadvise_def engine_events_def eligible_def
      split: sum.splits)


lemma try_drop_fd_pointers:
  "real_close (try_drop_fd os fd s) = real_close s"
  "real_fclose (try_drop_fd os fd s) = real_fclose s"
  by (simp_all add: try_drop_fd_def fstat_def posix_fadvise_def split: sum.splits)

lemma try_open_hint_trace:
  "trace (try_open_hint os fd s) =
     trace s @ (if do_open_hint s
                then engine_events os (small_file_cutoff s) POSIX_FADV_NOREUSE fd (kern (sys s))
                else [])"
  by (simp add: try_open_hint_def fstat_def posix_fadvise_def engine_events_def eligible_def
      split: sum.splits)



subsection \<open>The delegation step\<close>

lemma delegate_unfold:
  "(case fp of Some f \<Rightarrow> call_real name f a s | None \<Rightarrow> syscall os n a s) =
     delegate os fp name n a s"
  by (simp add: delegate_def delegated_def delegate_event_def call_real_def syscall_def
      split: option.splits prod.splits)

lemma delegate_fst: "fst (delegate os fp name n a s) = fst (delegated os fp n a (sys s))"
  by (simp add: delegate_def)

lemma delegate_snd:
  "sys (snd (delegate os fp name n a s)) = snd (delegated os fp n a (sys s))"
  "trace (snd (delegate os fp name n a s)) = trace s @ [delegate_event fp name n a]"
  "small_file_cutoff (snd (delegate os fp name n a s)) = small_file_cutoff s"
  "do_open_hint (snd (delegate os fp name n a s)) = do_open_hint s"
  by (simp_all add: delegate_def)

subsection \<open>The wrappers, step by step\<close>

lemma open_unfold:
  "open os p fl ap s =
     (let d = delegate os (real_open (pthread_once os s)) ''open'' SYS_open
                (A_open p fl (if fl AND O_CREAT \<noteq> 0 then ap else 0)) (pthread_once os s)
      in (fst d, try_open_hint os (fst d) (snd d)))"
  by (simp add: open_def delegate_unfold Let_def split: prod.splits)

lemma open64_unfold:
  "open64 os p fl ap s =
     (let d = delegate os (real_open64 (pthread_once os s)) ''open64'' SYS_open
                (A_open p fl (if fl AND O_CREAT \<noteq> 0 then ap else 0)) (pthread_once os s)
      in (fst d, try_open_hint os (fst d) (snd d)))"
  by (simp add: open64_def delegate_unfold Let_def split: prod.splits)

lemma read_unfold:
  "read os fd buf count s =
     (let d = delegate os (real_read (pthread_once os s)) ''read'' SYS_read (A_read fd buf count)
                (pthread_once os s)
      in (fst d, if fst d = 0 then try_drop_fd os fd (snd d) else snd d))"
  by (simp add: read_def delegate_unfold Let_def split: prod.splits)

lemma pread_unfold:
  "pread os fd buf count off s =
     (let d = delegate os (real_pread (pthread_once os s)) ''pread'' SYS_pread64
                (A_pread fd buf count off) (pthread_once os s)
      in (fst d, if fst d = 0 then try_drop_fd os fd (snd d) else snd d))"
  by (simp add: pread_def delegate_unfold Let_def split: prod.splits)

lemma readv_unfold:
  "readv os fd iov iovcnt s =
     (let d = delegate os (real_readv (pthread_once os s)) ''readv'' SYS_readv
                (A_readv fd iov iovcnt) (pthread_once os s)
      in (fst d, if fst d = 0 then try_drop_fd os fd (snd d) else snd d))"
  by (simp add: readv_def delegate_unfold Let_def split: prod.splits)

lemma close_unfold:
  "close os fd s =
     delegate os (real_close (pthread_once os s)) ''close'' SYS_close (A_close fd)
       (if do_close_drop (pthread_once os s) then try_drop_fd os fd (pthread_once os s)
        else pthread_once os s)"
  by (simp add: close_def delegate_unfold Let_def try_drop_fd_pointers)

text \<open>The state in which \<open>fclose\<close> hands the stream to the original.\<close>

lemma fclose_unfold:
  "fclose os stream s =
     (let s0 = pthread_once os s;
          s1 = (if stream \<noteq> NULL \<and> do_close_drop s0
                then (case os_fileno os stream (kern (sys s)) of
                        None \<Rightarrow> snd (fileno os stream s0)
                      | Some fd \<Rightarrow> if fd \<ge> 0 then try_drop_fd os fd (snd (fileno os stream s0))
                                  else snd (fileno os stream s0))
                else s0)
      in case real_fclose s0 of
           Some f \<Rightarrow> call_real ''fclose'' f (A_fclose stream) s1
         | None \<Rightarrow> (0, s1))"
  by (simp add: fclose_def Let_def fileno_def try_drop_fd_pointers pthread_once_kern
      split: option.splits)

subsection \<open>Configuration\<close>

lemma digits_val_no_digit: "u = [] \<or> \<not> isdigit (hd u) \<Longrightarrow> digits_val acc u = acc"
  by (cases u) auto

lemma strtoll_no_digits: "no_digits str \<Longrightarrow> strtoll str = 0"
proof -
  assume nd: "no_digits str"
  define t where "t = dropWhile isspace str"
  define u where "u = (if t \<noteq> [] \<and> (hd t = CHR ''-'' \<or> hd t = CHR ''+'') then tl t else t)"
  from nd have "u = [] \<or> \<not> isdigit (hd u)"
    unfolding no_digits_def Let_def t_def u_def .
  then have v: "digits_val 0 u = 0"
    by (rule digits_val_no_digit)
  have "strtoll str =
      (let sv = (if t \<noteq> [] \<and> hd t = CHR ''-'' then - digits_val 0 u else digits_val 0 u)
       in if sv > LLONG_MAX then LLONG_MAX else if sv < LLONG_MIN then LLONG_MIN else sv)"
    unfolding strtoll_def Let_def t_def u_def ..
  then show ?thesis
    by (simp add: v LLONG_MAX_def LLONG_MIN_def)
qed

lemma pthread_once_initial:
  "pthread_once os (initial y) = (init_real_fns os (initial y))\<lparr>init_once := True\<rparr>"
  by (simp add: pthread_once_def initial_def)

lemma cutoff_init_real_fns:
  "small_file_cutoff (init_real_fns os (initial y)) =
     (case getenv os ''FADV_SMALL_CUTOFF'' of
        None \<Rightarrow> 1048576
      | Some v \<Rightarrow> if 0 < strtoll v then strtoll v else 1048576)"
  by (simp add: init_real_fns_def load_config_from_env_def initial_def Let_def
      split: option.splits)

lemma open_hint_init_real_fns:
  "do_open_hint (init_real_fns os (initial y)) = (getenv os ''FADV_OPEN_HINT'' \<noteq> Some ''none'')"
  by (simp add: init_real_fns_def load_config_from_env_def initial_def Let_def
      split: option.splits)

lemma close_drop_init_real_fns:
  "do_close_drop (init_real_fns os (initial y)) = (getenv os ''FADV_CLOSE_DROP'' \<noteq> Some ''0'')"
  by (simp add: init_real_fns_def load_config_from_env_def initial_def Let_def
      split: option.splits)

text \<open>
  Claim C5. After the initialiser has run in a fresh process, the cutoff is the value that
  \<open>strtoll\<close> reads from \<open>FADV_SMALL_CUTOFF\<close> when that value is positive, and the default of
  1 MiB (\<open>2 ^ 20\<close> bytes) when the variable is absent, has no digits to parse, or parses
  to zero or less.
\<close>

theorem cutoff_from_env:
  "small_file_cutoff (pthread_once os (initial y)) =
     (case getenv os ''FADV_SMALL_CUTOFF'' of
        None \<Rightarrow> 2 ^ 20
      | Some v \<Rightarrow> if no_digits v then 2 ^ 20
                  else if 0 < strtoll v then strtoll v
                  else 2 ^ 20)"
  by (simp add: pthread_once_initial cutoff_init_real_fns strtoll_no_digits
      split: option.splits)

text \<open>
  Claim C6. After the initialiser has run in a fresh process, the open-time hint is off
  exactly when \<open>FADV_OPEN_HINT\<close> is \<open>none\<close>, and the close-time drop is off exactly when
  \<open>FADV_CLOSE_DROP\<close> is \<open>0\<close>; any other value, or none, leaves them on. Changing one of the
  two variables does not change the other switch. With its switch off the open-time hint
  does nothing; the drop engine does not look at the open-hint switch, nor the hint at the
  close-drop switch.
\<close>

theorem hint_switches_from_env:
  "do_open_hint (pthread_once os (initial y)) = (getenv os ''FADV_OPEN_HINT'' \<noteq> Some ''none'')
   \<and> do_close_drop (pthread_once os (initial y)) = (getenv os ''FADV_CLOSE_DROP'' \<noteq> Some ''0'')
   \<and> do_close_drop (pthread_once (os\<lparr>getenv := (getenv os)(''FADV_OPEN_HINT'' := v)\<rparr>) (initial y))
       = do_close_drop (pthread_once os (initial y))
   \<and> do_open_hint (pthread_once (os\<lparr>getenv := (getenv os)(''FADV_CLOSE_DROP'' := v)\<rparr>) (initial y))
       = do_open_hint (pthread_once os (initial y))
   \<and> try_open_hint os fd (s\<lparr>do_open_hint := False\<rparr>) = s\<lparr>do_open_hint := False\<rparr>
   \<and> try_drop_fd os fd (s\<lparr>do_open_hint := b\<rparr>) = (try_drop_fd os fd s)\<lparr>do_open_hint := b\<rparr>
   \<and> try_open_hint os fd (s\<lparr>do_close_drop := b\<rparr>) = (try_open_hint os fd s)\<lparr>do_close_drop := b\<rparr>"
  by (simp add: pthread_once_initial open_hint_init_real_fns close_drop_init_real_fns
      try_open_hint_def try_drop_fd_def fstat_def posix_fadvise_def split: sum.splits)

subsection \<open>The read family\<close>

lemma read_events:
  "new_events s (snd (read os fd buf count s)) =
     delegate_event (real_read (pthread_once os s)) ''read'' SYS_read (A_read fd buf count) #
     (case delegated os (real_read (pthread_once os s)) SYS_read (A_read fd buf count) (sys (pthread_once os s)) of
        (r, y) \<Rightarrow>
          if r = 0
          then engine_events os (small_file_cutoff (pthread_once os s)) POSIX_FADV_DONTNEED fd (kern y)
          else [])"
  by (rule new_events_append)
    (simp add: read_unfold Let_def try_drop_fd_trace delegate_fst delegate_snd
      pthread_once_kern pthread_once_trace split: prod.splits)

lemma pread_events:
  "new_events s (snd (pread os fd buf count off s)) =
     delegate_event (real_pread (pthread_once os s)) ''pread'' SYS_pread64 (A_pread fd buf count off) #
     (case delegated os (real_pread (pthread_once os s)) SYS_pread64 (A_pread fd buf count off) (sys (pthread_once os s)) of
        (r, y) \<Rightarrow>
          if r = 0
          then engine_events os (small_file_cutoff (pthread_once os s)) POSIX_FADV_DONTNEED fd (kern y)
          else [])"
  by (rule new_events_append)
    (simp add: pread_unfold Let_def try_drop_fd_trace delegate_fst delegate_snd
      pthread_once_kern pthread_once_trace split: prod.splits)

lemma readv_events:
  "new_events s (snd (readv os fd iov iovcnt s)) =
     delegate_event (real_readv (pthread_once os s)) ''readv'' SYS_readv (A_readv fd iov iovcnt) #
     (case delegated os (real_readv (pthread_once os s)) SYS_readv (A_readv fd iov iovcnt) (sys (pthread_once os s)) of
        (r, y) \<Rightarrow>
          if r = 0
          then engine_events os (small_file_cutoff (pthread_once os s)) POSIX_FADV_DONTNEED fd (kern y)
          else [])"
  by (rule new_events_append)
    (simp add: readv_unfold Let_def try_drop_fd_trace delegate_fst delegate_snd
      pthread_once_kern pthread_once_trace split: prod.splits)







text \<open>
  Claim C3. A \<open>read\<close>, \<open>pread\<close> or \<open>readv\<close> whose delegated call returns 0 runs the drop
  engine on the descriptor, so exactly one \<open>POSIX_FADV_DONTNEED\<close> is issued when the
  descriptor passes the guards of the engine, evaluated after the delegated call; a call
  that returns anything else issues nothing. The value of \<open>do_close_drop\<close> plays no part.
\<close>

theorem eof_read_drops_pages:
  "advisories (new_events s (snd (read os fd buf count s))) =
     (case delegated os (real_read (pthread_once os s)) SYS_read (A_read fd buf count) (sys (pthread_once os s)) of
        (r, y) \<Rightarrow>
          if r = 0 \<and> eligible os (small_file_cutoff (pthread_once os s)) fd (kern y)
          then [(fd, POSIX_FADV_DONTNEED)] else [])
   \<and> advisories (new_events s (snd (pread os fd buf count off s))) =
     (case delegated os (real_pread (pthread_once os s)) SYS_pread64 (A_pread fd buf count off) (sys (pthread_once os s)) of
        (r, y) \<Rightarrow>
          if r = 0 \<and> eligible os (small_file_cutoff (pthread_once os s)) fd (kern y)
          then [(fd, POSIX_FADV_DONTNEED)] else [])
   \<and> advisories (new_events s (snd (readv os fd iov iovcnt s))) =
     (case delegated os (real_readv (pthread_once os s)) SYS_readv (A_readv fd iov iovcnt) (sys (pthread_once os s)) of
        (r, y) \<Rightarrow>
          if r = 0 \<and> eligible os (small_file_cutoff (pthread_once os s)) fd (kern y)
          then [(fd, POSIX_FADV_DONTNEED)] else [])
   \<and> new_events (s\<lparr>do_close_drop := b\<rparr>) (snd (read os fd buf count (s\<lparr>do_close_drop := b\<rparr>)))
       = new_events s (snd (read os fd buf count s))
   \<and> new_events (s\<lparr>do_close_drop := b\<rparr>) (snd (pread os fd buf count off (s\<lparr>do_close_drop := b\<rparr>)))
       = new_events s (snd (pread os fd buf count off s))
   \<and> new_events (s\<lparr>do_close_drop := b\<rparr>) (snd (readv os fd iov iovcnt (s\<lparr>do_close_drop := b\<rparr>)))
       = new_events s (snd (readv os fd iov iovcnt s))"
proof (intro conjI)
  show "advisories (new_events s (snd (read os fd buf count s))) =
     (case delegated os (real_read (pthread_once os s)) SYS_read (A_read fd buf count) (sys (pthread_once os s)) of
        (r, y) \<Rightarrow>
          if r = 0 \<and> eligible os (small_file_cutoff (pthread_once os s)) fd (kern y)
          then [(fd, POSIX_FADV_DONTNEED)] else [])"
    by (simp add: read_events advisories_delegate_event advisories_engine_events
        split: prod.splits)
  show "advisories (new_events s (snd (pread os fd buf count off s))) =
     (case delegated os (real_pread (pthread_once os s)) SYS_pread64 (A_pread fd buf count off) (sys (pthread_once os s)) of
        (r, y) \<Rightarrow>
          if r = 0 \<and> eligible os (small_file_cutoff (pthread_once os s)) fd (kern y)
          then [(fd, POSIX_FADV_DONTNEED)] else [])"
    by (simp add: pread_events advisories_delegate_event advisories_engine_events
        split: prod.splits)
  show "advisories (new_events s (snd (readv os fd iov iovcnt s))) =
     (case delegated os (real_readv (pthread_once os s)) SYS_readv (A_readv fd iov iovcnt) (sys (pthread_once os s)) of
        (r, y) \<Rightarrow>
          if r = 0 \<and> eligible os (small_file_cutoff (pthread_once os s)) fd (kern y)
          then [(fd, POSIX_FADV_DONTNEED)] else [])"
    by (simp add: readv_events advisories_delegate_event advisories_engine_events
        split: prod.splits)
  show "new_events (s\<lparr>do_close_drop := b\<rparr>) (snd (read os fd buf count (s\<lparr>do_close_drop := b\<rparr>)))
       = new_events s (snd (read os fd buf count s))"
    by (simp add: read_events pthread_once_close_drop_upd split: prod.splits)
  show "new_events (s\<lparr>do_close_drop := b\<rparr>) (snd (pread os fd buf count off (s\<lparr>do_close_drop := b\<rparr>)))
       = new_events s (snd (pread os fd buf count off s))"
    by (simp add: pread_events pthread_once_close_drop_upd split: prod.splits)
  show "new_events (s\<lparr>do_close_drop := b\<rparr>) (snd (readv os fd iov iovcnt (s\<lparr>do_close_drop := b\<rparr>)))
       = new_events s (snd (readv os fd iov iovcnt s))"
    by (simp add: readv_events pthread_once_close_drop_upd split: prod.splits)
qed

subsection \<open>The close family\<close>

lemma fileno_trace: "trace (snd (fileno os f s)) = trace s @ [Fileno f]"
  by (simp add: fileno_def split: option.splits)

lemma close_events:
  "new_events s (snd (close os fd s)) =
     (if do_close_drop (pthread_once os s)
      then engine_events os (small_file_cutoff (pthread_once os s)) POSIX_FADV_DONTNEED fd
             (kern (sys s))
      else []) @
     [delegate_event (real_close (pthread_once os s)) ''close'' SYS_close (A_close fd)]"
  by (rule new_events_append)
    (simp add: close_unfold delegate_snd try_drop_fd_trace pthread_once_kern pthread_once_trace)

lemma fclose_events:
  "new_events s (snd (fclose os stream s)) =
     (if stream \<noteq> NULL \<and> do_close_drop (pthread_once os s)
      then Fileno stream #
           (case os_fileno os stream (kern (sys s)) of
              None \<Rightarrow> []
            | Some fd \<Rightarrow> engine_events os (small_file_cutoff (pthread_once os s))
                           POSIX_FADV_DONTNEED fd (kern (sys s)))
      else []) @
     (case real_fclose (pthread_once os s) of
        Some f \<Rightarrow> [Orig ''fclose'' (A_fclose stream)]
      | None \<Rightarrow> [])"
  by (rule new_events_append)
    (simp add: fclose_unfold Let_def call_real_def fileno_def try_drop_fd_trace
      pthread_once_kern pthread_once_trace engine_events_def
      split: option.splits prod.splits)

text \<open>
  Claim C4. With close-drop enabled, \<open>close\<close> on a descriptor that passes the guards, and
  \<open>fclose\<close> on a stream whose descriptor passes them, issue exactly one
  \<open>POSIX_FADV_DONTNEED\<close>, and issue it before the call that relinquishes the descriptor;
  with close-drop disabled the close path issues no advisory.
\<close>

theorem close_drops_before_teardown:
  "(do_close_drop (pthread_once os s)
      \<and> eligible os (small_file_cutoff (pthread_once os s)) fd (kern (sys s)) \<longrightarrow>
    new_events s (snd (close os fd s)) =
      [Fstat fd, Fadvise fd POSIX_FADV_DONTNEED,
       delegate_event (real_close (pthread_once os s)) ''close'' SYS_close (A_close fd)])
   \<and> (\<not> do_close_drop (pthread_once os s) \<longrightarrow>
    new_events s (snd (close os fd s)) =
      [delegate_event (real_close (pthread_once os s)) ''close'' SYS_close (A_close fd)])
   \<and> (stream \<noteq> NULL \<and> do_close_drop (pthread_once os s)
      \<and> os_fileno os stream (kern (sys s)) = Some fd
      \<and> eligible os (small_file_cutoff (pthread_once os s)) fd (kern (sys s)) \<longrightarrow>
    new_events s (snd (fclose os stream s)) =
      [Fileno stream, Fstat fd, Fadvise fd POSIX_FADV_DONTNEED] @
      (case real_fclose (pthread_once os s) of
         Some f \<Rightarrow> [Orig ''fclose'' (A_fclose stream)]
       | None \<Rightarrow> []))
   \<and> (\<not> do_close_drop (pthread_once os s) \<longrightarrow>
    new_events s (snd (fclose os stream s)) =
      (case real_fclose (pthread_once os s) of
         Some f \<Rightarrow> [Orig ''fclose'' (A_fclose stream)]
       | None \<Rightarrow> []))"
  by (simp add: close_events fclose_events engine_events_def eligible_def)

text \<open>The definitions that evaluate a call on the small platform.\<close>

lemmas ex_defs = ex_os_def ex_env_def ex_sys_def ex_libc_def ex_stat_def eio_os_def initial_def
  pthread_once_def init_real_fns_def load_config_from_env_def strtoll_def strtoll_errno_def
  ERANGE_def isspace_def isdigit_def
  LLONG_MAX_def LLONG_MIN_def eligible_def delegate_event_def delegated_def S_ISREG_def
  NULL_def O_CREAT_def O_RDONLY_def EBADF_def

theorem close_drops_before_teardown_witness:
  "new_events (initial ex_sys) (snd (close (ex_os True ex_env) 3 (initial ex_sys))) =
     [Fstat 3, Fadvise 3 POSIX_FADV_DONTNEED, Orig ''close'' (A_close 3)]
   \<and> new_events (initial ex_sys) (snd (fclose (ex_os True ex_env) 1000 (initial ex_sys))) =
     [Fileno 1000, Fstat 3, Fadvise 3 POSIX_FADV_DONTNEED, Orig ''fclose'' (A_fclose 1000)]
   \<and> new_events (initial ex_sys)
       (snd (close (ex_os True (ex_env(''FADV_CLOSE_DROP'' \<mapsto> ''0''))) 3 (initial ex_sys))) =
     [Orig ''close'' (A_close 3)]
   \<and> new_events (initial ex_sys)
       (snd (fclose (ex_os True (ex_env(''FADV_CLOSE_DROP'' \<mapsto> ''0''))) 1000 (initial ex_sys))) =
     [Orig ''fclose'' (A_fclose 1000)]"
  using close_drops_before_teardown [of "ex_os True ex_env" "initial ex_sys" 3 1000]
    close_drops_before_teardown
      [of "ex_os True (ex_env(''FADV_CLOSE_DROP'' \<mapsto> ''0''))" "initial ex_sys" 3 1000]
  by (simp add: ex_defs)

subsection \<open>The open family\<close>

lemma open_events:
  "new_events s (snd (open os p fl ap s)) =
     delegate_event (real_open (pthread_once os s)) ''open'' SYS_open
       (A_open p fl (if fl AND O_CREAT \<noteq> 0 then ap else 0)) #
     (case delegated os (real_open (pthread_once os s)) SYS_open
             (A_open p fl (if fl AND O_CREAT \<noteq> 0 then ap else 0)) (sys (pthread_once os s)) of
        (fd, y) \<Rightarrow>
          if do_open_hint (pthread_once os s)
          then engine_events os (small_file_cutoff (pthread_once os s)) POSIX_FADV_NOREUSE fd (kern y)
          else [])"
  by (rule new_events_append)
    (simp add: open_unfold Let_def try_open_hint_trace delegate_fst delegate_snd
      pthread_once_kern pthread_once_trace split: prod.splits)

lemma open64_events:
  "new_events s (snd (open64 os p fl ap s)) =
     delegate_event (real_open64 (pthread_once os s)) ''open64'' SYS_open
       (A_open p fl (if fl AND O_CREAT \<noteq> 0 then ap else 0)) #
     (case delegated os (real_open64 (pthread_once os s)) SYS_open
             (A_open p fl (if fl AND O_CREAT \<noteq> 0 then ap else 0)) (sys (pthread_once os s)) of
        (fd, y) \<Rightarrow>
          if do_open_hint (pthread_once os s)
          then engine_events os (small_file_cutoff (pthread_once os s)) POSIX_FADV_NOREUSE fd (kern y)
          else [])"
  by (rule new_events_append)
    (simp add: open64_unfold Let_def try_open_hint_trace delegate_fst delegate_snd
      pthread_once_kern pthread_once_trace split: prod.splits)

lemma open_result:
  "fst (open os p fl ap s) =
     fst (delegated os (real_open (pthread_once os s)) SYS_open
            (A_open p fl (if fl AND O_CREAT \<noteq> 0 then ap else 0)) (sys (pthread_once os s)))"
  by (simp add: open_unfold Let_def delegate_fst pthread_once_kern)

lemma open64_result:
  "fst (open64 os p fl ap s) =
     fst (delegated os (real_open64 (pthread_once os s)) SYS_open
            (A_open p fl (if fl AND O_CREAT \<noteq> 0 then ap else 0)) (sys (pthread_once os s)))"
  by (simp add: open64_unfold Let_def delegate_fst pthread_once_kern)



lemma open64_state:
  assumes "real_open64 (pthread_once os s) = real_open (pthread_once os s)"
  shows "snd (open64 os p fl ap s) =
           (snd (open os p fl ap s))\<lparr>trace := trace (snd (open64 os p fl ap s))\<rparr>"
  using assms
  by (simp add: open_unfold open64_unfold Let_def delegate_def try_open_hint_def fstat_def
      posix_fadvise_def split: sum.splits)

text \<open>
  Claim C10. \<open>open\<close> and \<open>open64\<close> behave alike: when their two pointers are in the same
  state (both unset, or both set to the same original), they return the same value, leave
  the same state behind, issue the same calls up to the name of the pointer called, and
  pass on the same arguments, the mode being read only when \<open>O_CREAT\<close> is set.
\<close>

theorem open64_same_as_open:
  assumes "real_open64 (pthread_once os s) = real_open (pthread_once os s)"
  shows "fst (open64 os p fl ap s) = fst (open os p fl ap s)
    \<and> snd (open64 os p fl ap s) =
        (snd (open os p fl ap s))\<lparr>trace := trace (snd (open64 os p fl ap s))\<rparr>
    \<and> map unnamed (new_events s (snd (open64 os p fl ap s))) =
        map unnamed (new_events s (snd (open os p fl ap s)))
    \<and> passed_args (new_events s (snd (open64 os p fl ap s))) =
        [A_open p fl (if fl AND O_CREAT \<noteq> 0 then ap else 0)]
    \<and> passed_args (new_events s (snd (open os p fl ap s))) =
        [A_open p fl (if fl AND O_CREAT \<noteq> 0 then ap else 0)]"
proof (intro conjI)
  show "fst (open64 os p fl ap s) = fst (open os p fl ap s)"
    by (simp add: open_result open64_result assms)
  show "snd (open64 os p fl ap s) =
        (snd (open os p fl ap s))\<lparr>trace := trace (snd (open64 os p fl ap s))\<rparr>"
    using assms by (rule open64_state)
  show "map unnamed (new_events s (snd (open64 os p fl ap s))) =
        map unnamed (new_events s (snd (open os p fl ap s)))"
    by (simp add: open_events open64_events assms delegate_event_def split: option.splits)
  show "passed_args (new_events s (snd (open64 os p fl ap s))) =
        [A_open p fl (if fl AND O_CREAT \<noteq> 0 then ap else 0)]"
    by (simp only: open64_events passed_args_delegate_event)
      (simp add: passed_args_engine_events split: prod.splits)
  show "passed_args (new_events s (snd (open os p fl ap s))) =
        [A_open p fl (if fl AND O_CREAT \<noteq> 0 then ap else 0)]"
    by (simp only: open_events passed_args_delegate_event)
      (simp add: passed_args_engine_events split: prod.splits)
qed

theorem open64_same_as_open_witness:
  "real_open64 (pthread_once (ex_os True ex_env) (initial ex_sys)) =
     real_open (pthread_once (ex_os True ex_env) (initial ex_sys))
   \<and> fst (open64 (ex_os True ex_env) ''small.txt'' 66 420 (initial ex_sys)) =
       fst (open (ex_os True ex_env) ''small.txt'' 66 420 (initial ex_sys))
   \<and> passed_args (new_events (initial ex_sys)
        (snd (open64 (ex_os True ex_env) ''small.txt'' 66 420 (initial ex_sys)))) =
       [A_open ''small.txt'' 66 420]"
proof -
  have h: "real_open64 (pthread_once (ex_os True ex_env) (initial ex_sys)) =
     real_open (pthread_once (ex_os True ex_env) (initial ex_sys))"
    by (simp add: ex_defs)
  show ?thesis
    using h open64_same_as_open [OF h, of "''small.txt''" 66 420]
    by (simp add: O_CREAT_def)
qed

subsection \<open>The buffered open\<close>

lemma fopen_resolved:
  assumes "real_fopen (pthread_once os s) = Some g"
  shows "fopen os p m s =
     (case g (A_fopen p m) (sys (pthread_once os s)) of
        (f, y) \<Rightarrow>
          (let s1 = (pthread_once os s)\<lparr>sys := y, trace := trace s @ [Orig ''fopen'' (A_fopen p m)]\<rparr>
           in if f \<noteq> NULL \<and> do_open_hint (pthread_once os s)
              then (f, try_open_hint os (fst (fileno os f s1)) (snd (fileno os f s1)))
              else (f, s1)))"
  using assms
  by (simp add: fopen_def Let_def call_real_def pthread_once_kern pthread_once_trace
      split: prod.splits)



lemma fopen_resolved_events:
  assumes "real_fopen (pthread_once os s) = Some g"
  shows "new_events s (snd (fopen os p m s)) =
     Orig ''fopen'' (A_fopen p m) #
     (case g (A_fopen p m) (sys (pthread_once os s)) of
        (f, y) \<Rightarrow>
          if f \<noteq> NULL \<and> do_open_hint (pthread_once os s)
          then Fileno f #
               (case os_fileno os f (kern y) of
                  None \<Rightarrow> []
                | Some fd \<Rightarrow> engine_events os (small_file_cutoff (pthread_once os s))
                               POSIX_FADV_NOREUSE fd (kern y))
          else [])"
  by (rule new_events_append)
    (simp add: fopen_resolved [OF assms] Let_def try_open_hint_trace fileno_def engine_events_def
      split: prod.splits option.splits)

text \<open>\<open>open\<close>, \<open>open64\<close> and \<open>fopen\<close> through its original issue one
  \<open>POSIX_FADV_NOREUSE\<close> when the hint is enabled and the new descriptor passes the guards,
  and nothing otherwise, so nothing for a file above the cutoff.\<close>

lemma open_advisories:
  "advisories (new_events s (snd (open os p fl ap s))) =
     (case delegated os (real_open (pthread_once os s)) SYS_open
             (A_open p fl (if fl AND O_CREAT \<noteq> 0 then ap else 0)) (sys (pthread_once os s)) of
        (fd, y) \<Rightarrow>
          if do_open_hint (pthread_once os s)
             \<and> eligible os (small_file_cutoff (pthread_once os s)) fd (kern y)
          then [(fd, POSIX_FADV_NOREUSE)] else [])"
  by (simp add: open_events advisories_delegate_event advisories_engine_events
      split: prod.splits)

lemma open64_advisories:
  "advisories (new_events s (snd (open64 os p fl ap s))) =
     (case delegated os (real_open64 (pthread_once os s)) SYS_open
             (A_open p fl (if fl AND O_CREAT \<noteq> 0 then ap else 0)) (sys (pthread_once os s)) of
        (fd, y) \<Rightarrow>
          if do_open_hint (pthread_once os s)
             \<and> eligible os (small_file_cutoff (pthread_once os s)) fd (kern y)
          then [(fd, POSIX_FADV_NOREUSE)] else [])"
  by (simp add: open64_events advisories_delegate_event advisories_engine_events
      split: prod.splits)

lemma fopen_resolved_advisories:
  assumes "real_fopen (pthread_once os s) = Some g"
  shows "advisories (new_events s (snd (fopen os p m s))) =
     (case g (A_fopen p m) (sys (pthread_once os s)) of
        (f, y) \<Rightarrow>
          (case os_fileno os f (kern y) of
             None \<Rightarrow> []
           | Some fd \<Rightarrow>
               if f \<noteq> NULL \<and> do_open_hint (pthread_once os s)
                  \<and> eligible os (small_file_cutoff (pthread_once os s)) fd (kern y)
               then [(fd, POSIX_FADV_NOREUSE)] else []))"
  by (simp add: fopen_resolved_events [OF assms] advisories_engine_events
      split: prod.splits option.splits)

lemma delegations_other:
  "delegations [] = []"
  "delegations (Fdopen fd m # es) = delegations es"
  "delegations (Fileno f # es) = delegations es"
  by (simp_all add: delegations_def)

text \<open>The fallback of \<open>fopen\<close>: the nested \<open>open\<close> of this file, then \<open>fdopen\<close>.\<close>

lemma fopen_fallback_delegations:
  assumes "real_fopen (pthread_once os s) = None"
  shows "delegations (new_events s (snd (fopen os p m s))) =
     [delegate_event (real_open (pthread_once os s)) ''open'' SYS_open (A_open p O_RDONLY 0)]"
proof -
  let ?s0 = "pthread_once os s"
  let ?d = "delegate os (real_open ?s0) ''open'' SYS_open (A_open p O_RDONLY 0) ?s0"
  let ?sa = "try_open_hint os (fst ?d) (snd ?d)"
  have nested: "open os p O_RDONLY 0 ?s0 = (fst ?d, ?sa)"
    by (simp add: open_unfold pthread_once_idem Let_def O_RDONLY_def O_CREAT_def)
  define es where "es =
      (if do_open_hint (snd ?d)
       then engine_events os (small_file_cutoff (snd ?d)) POSIX_FADV_NOREUSE (fst ?d)
              (kern (sys (snd ?d)))
       else [])"
  have sa: "trace ?sa =
      trace s @ delegate_event (real_open ?s0) ''open'' SYS_open (A_open p O_RDONLY 0) # es"
    by (simp add: es_def try_open_hint_trace delegate_snd pthread_once_trace)
  have es: "delegations es = []"
    by (simp add: es_def delegations_engine_events delegations_other)
  obtain f y where fd: "os_fdopen os (fst ?d) ''r'' (sys ?sa) = (f, y)"
    by (cases "os_fdopen os (fst ?d) ''r'' (sys ?sa)")
  let ?s1 = "?sa\<lparr>sys := y, trace := trace ?sa @ [Fdopen (fst ?d) ''r'']\<rparr>"
  have unfold: "fopen os p m s =
      (if f \<noteq> NULL \<and> do_open_hint ?s1
       then (f, try_open_hint os (fst (fileno os f ?s1)) (snd (fileno os f ?s1)))
       else (f, ?s1))"
    using assms by (simp add: fopen_def Let_def nested fdopen_def fd split: prod.splits)
  have s1: "trace ?s1 =
      trace s @ delegate_event (real_open ?s0) ''open'' SYS_open (A_open p O_RDONLY 0) #
        (es @ [Fdopen (fst ?d) ''r''])"
    by (simp add: sa)
  define s2 where "s2 = snd (fileno os f ?s1)"
  define fd2 where "fd2 = fst (fileno os f ?s1)"
  define hs where "hs =
      (if do_open_hint s2
       then engine_events os (small_file_cutoff s2) POSIX_FADV_NOREUSE fd2 (kern (sys s2))
       else [])"
  have hs: "delegations hs = []"
    by (simp add: hs_def delegations_engine_events delegations_other)
  have s2: "trace s2 = trace ?s1 @ [Fileno f]"
    unfolding s2_def by (rule fileno_trace)
  have "\<exists>es'. trace (snd (fopen os p m s)) =
          trace s @ delegate_event (real_open ?s0) ''open'' SYS_open (A_open p O_RDONLY 0) # es'
        \<and> delegations es' = []"
  proof (cases "f \<noteq> NULL \<and> do_open_hint ?s1")
    case True
    then have "fopen os p m s = (f, try_open_hint os fd2 s2)"
      unfolding unfold s2_def fd2_def by (rule if_P)
    then have "snd (fopen os p m s) = try_open_hint os fd2 s2"
      by (simp only: snd_conv)
    then have "trace (snd (fopen os p m s)) = trace s2 @ hs"
      by (simp only: try_open_hint_trace hs_def)
    then have "trace (snd (fopen os p m s)) =
        trace s @ delegate_event (real_open ?s0) ''open'' SYS_open (A_open p O_RDONLY 0) #
          (es @ Fdopen (fst ?d) ''r'' # Fileno f # hs)"
      by (simp only: s2 s1) simp
    moreover have "delegations (es @ Fdopen (fst ?d) ''r'' # Fileno f # hs) = []"
      by (simp add: delegations_append es hs delegations_other)
    ultimately show ?thesis by blast
  next
    case False
    then have "fopen os p m s = (f, ?s1)"
      unfolding unfold by (rule if_not_P)
    then have "snd (fopen os p m s) = ?s1"
      by (simp only: snd_conv)
    then have "trace (snd (fopen os p m s)) =
        trace s @ delegate_event (real_open ?s0) ''open'' SYS_open (A_open p O_RDONLY 0) #
          (es @ [Fdopen (fst ?d) ''r''])"
      by (simp only: s1)
    moreover have "delegations (es @ [Fdopen (fst ?d) ''r'']) = []"
      by (simp add: delegations_append es delegations_other)
    ultimately show ?thesis by blast
  qed
  then obtain es' where t: "trace (snd (fopen os p m s)) =
          trace s @ delegate_event (real_open ?s0) ''open'' SYS_open (A_open p O_RDONLY 0) # es'"
    and d: "delegations es' = []"
    by blast
  show ?thesis
    by (simp add: new_events_append [OF t] delegations_delegate_event d)
qed






text \<open>The definitions that run a wrapper on a concrete state.\<close>

lemmas wrapper_defs = open_def open64_def fopen_def read_def pread_def readv_def close_def
  fclose_def call_real_def syscall_def fstat_def posix_fadvise_def fileno_def fdopen_def
  try_drop_fd_def try_open_hint_def new_events_def delegations_def

text \<open>
  Claim C2, on the fallback of \<open>fopen\<close>. No original is resolved and the hint is enabled;
  \<open>fopen\<close> of the 500-byte file succeeds and issues \<open>POSIX_FADV_NOREUSE\<close> on its
  descriptor twice: once in the nested \<open>open\<close>, once more in \<open>fopen\<close> itself.
\<close>

theorem fopen_fallback_hints_twice:
  "fst (fopen (ex_os False ex_env) ''small.txt'' ''r'' (initial ex_sys)) = 1000
   \<and> do_open_hint (pthread_once (ex_os False ex_env) (initial ex_sys))
   \<and> eligible (ex_os False ex_env)
        (small_file_cutoff (pthread_once (ex_os False ex_env) (initial ex_sys))) 3 ()
   \<and> advisories (new_events (initial ex_sys)
        (snd (fopen (ex_os False ex_env) ''small.txt'' ''r'' (initial ex_sys)))) =
       [(3, POSIX_FADV_NOREUSE), (3, POSIX_FADV_NOREUSE)]"
  by (simp add: ex_defs wrapper_defs)

subsection \<open>The buffered close\<close>

lemma delegations_kept:
  "delegations (Orig n a # es) = Orig n a # delegations es"
  "delegations (Syscall k a # es) = Syscall k a # delegations es"
  by (simp_all add: delegations_def)

lemma fclose_resolved_delegations:
  assumes "real_fclose (pthread_once os s) = Some f"
  shows "delegations (new_events s (snd (fclose os stream s))) = [Orig ''fclose'' (A_fclose stream)]"
  by (simp add: fclose_events assms delegations_append delegations_engine_events
      delegations_other delegations_kept split: option.splits)


lemma fclose_unresolved:
  assumes "real_fclose (pthread_once os s) = None"
  shows "fst (fclose os stream s) = 0"
    and "delegations (new_events s (snd (fclose os stream s))) = []"
proof -
  show "fst (fclose os stream s) = 0"
    by (simp add: fclose_unfold Let_def assms)
  show "delegations (new_events s (snd (fclose os stream s))) = []"
    by (simp add: fclose_events assms delegations_append delegations_engine_events
        delegations_other split: option.splits)
qed

text \<open>
  Claim C8, where the original \<open>fclose\<close> is not resolved: the wrapper drops the pages of
  stream 1000, calls nothing that closes the stream or its descriptor, and returns 0.
\<close>

theorem fclose_unresolved_skips_teardown:
  "real_fclose (pthread_once (ex_os False ex_env) (initial ex_sys)) = None
   \<and> fst (fclose (ex_os False ex_env) 1000 (initial ex_sys)) = 0
   \<and> new_events (initial ex_sys) (snd (fclose (ex_os False ex_env) 1000 (initial ex_sys))) =
       [Fileno 1000, Fstat 3, Fadvise 3 POSIX_FADV_DONTNEED]"
  by (simp add: ex_defs wrapper_defs)


lemma close_delegations:
  "delegations (new_events s (snd (close os fd s))) =
     [delegate_event (real_close (pthread_once os s)) ''close'' SYS_close (A_close fd)]"
  by (simp add: close_events delegations_append delegations_engine_events
      delegations_delegate_event delegations_other)

subsection \<open>Delegation\<close>

lemma open_delegations:
  "delegations (new_events s (snd (open os p fl ap s))) =
     [delegate_event (real_open (pthread_once os s)) ''open'' SYS_open
        (A_open p fl (if fl AND O_CREAT \<noteq> 0 then ap else 0))]"
  by (simp add: open_events delegations_delegate_event delegations_engine_events
      delegations_other split: prod.splits)

lemma open64_delegations:
  "delegations (new_events s (snd (open64 os p fl ap s))) =
     [delegate_event (real_open64 (pthread_once os s)) ''open64'' SYS_open
        (A_open p fl (if fl AND O_CREAT \<noteq> 0 then ap else 0))]"
  by (simp add: open64_events delegations_delegate_event delegations_engine_events
      delegations_other split: prod.splits)

lemma read_delegations:
  "delegations (new_events s (snd (read os fd buf count s))) =
     [delegate_event (real_read (pthread_once os s)) ''read'' SYS_read (A_read fd buf count)]"
  by (simp add: read_events delegations_delegate_event delegations_engine_events
      delegations_other split: prod.splits)

lemma pread_delegations:
  "delegations (new_events s (snd (pread os fd buf count off s))) =
     [delegate_event (real_pread (pthread_once os s)) ''pread'' SYS_pread64
        (A_pread fd buf count off)]"
  by (simp add: pread_events delegations_delegate_event delegations_engine_events
      delegations_other split: prod.splits)

lemma readv_delegations:
  "delegations (new_events s (snd (readv os fd iov iovcnt s))) =
     [delegate_event (real_readv (pthread_once os s)) ''readv'' SYS_readv
        (A_readv fd iov iovcnt)]"
  by (simp add: readv_events delegations_delegate_event delegations_engine_events
      delegations_other split: prod.splits)

lemma fopen_delegations:
  "delegations (new_events s (snd (fopen os p m s))) =
     (case real_fopen (pthread_once os s) of
        Some g \<Rightarrow> [Orig ''fopen'' (A_fopen p m)]
      | None \<Rightarrow> [delegate_event (real_open (pthread_once os s)) ''open'' SYS_open
                   (A_open p O_RDONLY 0)])"
proof (cases "real_fopen (pthread_once os s)")
  case None
  then show ?thesis
    by (simp add: fopen_fallback_delegations)
next
  case (Some g)
  then show ?thesis
    by (simp add: fopen_resolved_events [OF Some] delegations_kept delegations_other
        delegations_engine_events split: prod.splits option.splits)
qed

text \<open>
  Claim C7, as the code has it. Each of \<open>open\<close>, \<open>open64\<close>, \<open>read\<close>, \<open>pread\<close>, \<open>readv\<close> and
  \<open>close\<close> makes exactly one delegated call: the original when its pointer is set, the raw
  system call otherwise, with the arguments of the caller; the mode is the caller's when
  \<open>O_CREAT\<close> is set and 0 otherwise. \<open>fopen\<close> and \<open>fclose\<close> call their original with the
  arguments of the caller when it is resolved. When the original \<open>fopen\<close> is not resolved,
  the only delegated call is that of the nested \<open>open\<close> on the path with \<open>O_RDONLY\<close>.
\<close>

theorem delegation_arguments:
  "delegations (new_events s (snd (open os p fl ap s))) =
     [delegate_event (real_open (pthread_once os s)) ''open'' SYS_open
        (A_open p fl (if fl AND O_CREAT \<noteq> 0 then ap else 0))]
   \<and> delegations (new_events s (snd (open64 os p fl ap s))) =
     [delegate_event (real_open64 (pthread_once os s)) ''open64'' SYS_open
        (A_open p fl (if fl AND O_CREAT \<noteq> 0 then ap else 0))]
   \<and> delegations (new_events s (snd (read os fd buf count s))) =
     [delegate_event (real_read (pthread_once os s)) ''read'' SYS_read (A_read fd buf count)]
   \<and> delegations (new_events s (snd (pread os fd buf count off s))) =
     [delegate_event (real_pread (pthread_once os s)) ''pread'' SYS_pread64
        (A_pread fd buf count off)]
   \<and> delegations (new_events s (snd (readv os fd iov iovcnt s))) =
     [delegate_event (real_readv (pthread_once os s)) ''readv'' SYS_readv
        (A_readv fd iov iovcnt)]
   \<and> delegations (new_events s (snd (close os fd s))) =
     [delegate_event (real_close (pthread_once os s)) ''close'' SYS_close (A_close fd)]
   \<and> delegations (new_events s (snd (fopen os p m s))) =
     (case real_fopen (pthread_once os s) of
        Some g \<Rightarrow> [Orig ''fopen'' (A_fopen p m)]
      | None \<Rightarrow> [delegate_event (real_open (pthread_once os s)) ''open'' SYS_open
                   (A_open p O_RDONLY 0)])
   \<and> (real_fclose (pthread_once os s) \<noteq> None \<longrightarrow>
       delegations (new_events s (snd (fclose os stream s))) =
         [Orig ''fclose'' (A_fclose stream)])"
  by (intro conjI impI)
    (simp_all only: open_delegations open64_delegations read_delegations pread_delegations
      readv_delegations close_delegations fopen_delegations,
     auto simp: fclose_resolved_delegations)

theorem delegation_arguments_witness:
  "real_fclose (pthread_once (ex_os True ex_env) (initial ex_sys)) \<noteq> None
   \<and> delegations (new_events (initial ex_sys)
        (snd (fclose (ex_os True ex_env) 1000 (initial ex_sys)))) =
       [Orig ''fclose'' (A_fclose 1000)]
   \<and> delegations (new_events (initial ex_sys)
        (snd (open (ex_os True ex_env) ''small.txt'' 66 420 (initial ex_sys)))) =
       [Orig ''open'' (A_open ''small.txt'' 66 420)]
   \<and> delegations (new_events (initial ex_sys)
        (snd (open (ex_os False ex_env) ''small.txt'' 2 420 (initial ex_sys)))) =
       [Syscall SYS_open (A_open ''small.txt'' 2 0)]"
proof -
  have h: "real_fclose (pthread_once (ex_os True ex_env) (initial ex_sys)) \<noteq> None"
    by (simp add: ex_defs)
  show ?thesis
    using h
      delegation_arguments [where os = "ex_os True ex_env" and s = "initial ex_sys"
        and stream = 1000 and p = "''small.txt''" and fl = 66 and ap = 420]
      delegation_arguments [where os = "ex_os False ex_env" and s = "initial ex_sys"
        and p = "''small.txt''" and fl = 2 and ap = 420]
    by (simp add: ex_defs)
qed

text \<open>
  Claim C7 as stated fails for \<open>fopen\<close>: with no original resolved, \<open>fopen\<close> of
  \<open>small.txt\<close> for writing passes on the path with \<open>O_RDONLY\<close> and mode 0 to \<open>SYS_open\<close>; the
  mode string of the caller reaches no call.
\<close>

theorem fopen_fallback_changes_arguments:
  "real_fopen (pthread_once (ex_os False ex_env) (initial ex_sys)) = None
   \<and> passed_args (new_events (initial ex_sys)
        (snd (fopen (ex_os False ex_env) ''small.txt'' ''w'' (initial ex_sys)))) =
       [A_open ''small.txt'' O_RDONLY 0]
   \<and> passed_args (new_events (initial ex_sys)
        (snd (fopen (ex_os False ex_env) ''small.txt'' ''w'' (initial ex_sys)))) \<noteq>
       [A_fopen ''small.txt'' ''w'']"
  by (simp add: ex_defs wrapper_defs)

subsection \<open>Return value and error state\<close>




end
